theory Spec2Isabelle
  imports Main "HOL-Library.Char_ord" "HOL-Library.List_Lexorder"
begin

section \<open>Values, errors and insertion-ordered dictionaries\<close>

text \<open>
  \<^verbatim>\<open>dashboard.py\<close> moves values from pandas tables into openpyxl cells. A value is
  a string, a number, pandas' missing-value marker \<^verbatim>\<open>nan\<close>, or Python's \<^verbatim>\<open>None\<close> (the
  value of a cell that exists but was never assigned). Numbers are modelled as exact
  integers: head counts, degree counts and whole amounts, for which the additions of the
  host's 64-bit integers and of its doubles are exact up to fifteen digits, the precision a
  spreadsheet stores. Rounding of fractional amounts is outside the model. Strings are byte
  strings; their lexicographic order is the order Python gives the same text.
\<close>

datatype pyval = PNone | PStr string | PInt int | PNaN

text \<open>The exceptions of the host that can reach the caller.\<close>

datatype error = KeyError string | TypeError

text \<open>
  A Python dict, and the column index of a table, keep their keys in insertion order:
  assigning to a key that is present replaces its value where it stands, assigning to a
  new key appends it.
\<close>

fun put :: "'k \<Rightarrow> 'v \<Rightarrow> ('k \<times> 'v) list \<Rightarrow> ('k \<times> 'v) list" where
  "put k v [] = [(k, v)]"
| "put k v (p # ps) = (if fst p = k then (k, v) # ps else p # put k v ps)"

text \<open>Running a list of fallible computations stops at the first exception.\<close>

fun sequence :: "(error + 'a) list \<Rightarrow> error + 'a list" where
  "sequence [] = Inr []"
| "sequence (x # xs) =
     (case x of
        Inl e \<Rightarrow> Inl e
      | Inr v \<Rightarrow> (case sequence xs of Inl e \<Rightarrow> Inl e | Inr vs \<Rightarrow> Inr (v # vs)))"

section \<open>Row tables\<close>

text \<open>
  A table (\<^verbatim>\<open>pd.DataFrame\<close>) is held column by column, as pandas holds it: the column
  names in their order, each with its values, one per record. \<^verbatim>\<open>pd.read_excel\<close>
  returns tables whose columns all have \<open>nrows\<close> values.
\<close>

record frame =
  nrows :: nat
  columns :: "(string \<times> pyval list) list"

definition wf_frame :: "frame \<Rightarrow> bool" where
  "wf_frame df \<longleftrightarrow> (\<forall>p \<in> set (columns df). length (snd p) = nrows df)"

text \<open>\<^verbatim>\<open>df[name]\<close>: the column of that name, \<^verbatim>\<open>KeyError\<close> when there is none.\<close>

definition getitem :: "frame \<Rightarrow> string \<Rightarrow> error + pyval list" where
  "getitem df name =
     (case map_of (columns df) name of
        None \<Rightarrow> Inl (KeyError name)
      | Some vs \<Rightarrow> Inr vs)"

text \<open>\<^verbatim>\<open>df[names]\<close>: the named columns in the order asked for.\<close>

definition getitems :: "frame \<Rightarrow> string list \<Rightarrow> error + pyval list list" where
  "getitems df names = sequence (map (getitem df) names)"

text \<open>
  \<^verbatim>\<open>df[name] = values\<close>: replaces the column of that name where it stands, or appends a
  new last column.
\<close>

definition setitem :: "frame \<Rightarrow> string \<Rightarrow> pyval list \<Rightarrow> frame" where
  "setitem df name vs = df\<lparr>columns := put name vs (columns df)\<rparr>"

text \<open>
  The sum of one record's values with \<^verbatim>\<open>skipna=True\<close>, the default of
  \<^verbatim>\<open>DataFrame.sum\<close>: a missing value is skipped, so that a record of missing values
  only sums to 0; a string cannot be added to a number.
\<close>

fun nansum :: "pyval list \<Rightarrow> error + int" where
  "nansum [] = Inr 0"
| "nansum (PInt i # vs) = (case nansum vs of Inl e \<Rightarrow> Inl e | Inr s \<Rightarrow> Inr (i + s))"
| "nansum (PNaN # vs) = nansum vs"
| "nansum (PNone # vs) = nansum vs"
| "nansum (PStr s # vs) = Inl TypeError"

text \<open>\<^verbatim>\<open>.sum(axis=1)\<close> over the selected columns of a table of \<open>n\<close> records.\<close>

definition sum_axis1 :: "nat \<Rightarrow> pyval list list \<Rightarrow> error + pyval list" where
  "sum_axis1 n vss =
     sequence (map (\<lambda>r. case nansum (map (\<lambda>vs. vs ! r) vss) of
                           Inl e \<Rightarrow> Inl e
                         | Inr s \<Rightarrow> Inr (PInt s)) [0..<n])"

section \<open>The aggregator\<close>

definition fund_columns :: "string list" where
  "fund_columns =
     [''Federal Fund Sum'', ''Foreign Fund Sum'', ''Individual Fund Sum'',
      ''Industry Fund Sum'', ''Local Fund Sum'', ''Non-Profit Fund Sum'',
      ''Research Expenditures State Fund Sum'']"

definition total_column :: string where
  "total_column = ''Total Research Expenditures''"

text \<open>
  Lines 17 to 21 of \<^verbatim>\<open>create_dashboard_workbook\<close>:
  \<^verbatim>\<open>research_df['Total Research Expenditures'] = research_df[fund_columns].sum(axis=1)\<close>.
\<close>

definition add_total :: "frame \<Rightarrow> error + frame" where
  "add_total research_df =
     (case getitems research_df fund_columns of
        Inl e \<Rightarrow> Inl e
      | Inr vss \<Rightarrow>
          (case sum_axis1 (nrows research_df) vss of
             Inl e \<Rightarrow> Inl e
           | Inr totals \<Rightarrow> Inr (setitem research_df total_column totals)))"


fun amount :: "pyval \<Rightarrow> int" where
  "amount (PInt i) = i"
| "amount v = 0"

definition is_number :: "pyval \<Rightarrow> bool" where
  "is_number v = (case v of PInt i \<Rightarrow> True | _ \<Rightarrow> False)"





text \<open>
  Small research tables: two records, three leading columns and the seven funds, first
  with every amount given, then with amounts missing, the second record having none.
\<close>

definition research_numeric :: frame where
  "research_numeric =
     \<lparr>nrows = 2,
      columns =
        [(''Year'', [PInt 2023, PInt 2023]),
         (''Unit ID'', [PInt 1, PInt 2]),
         (''School Name'', [PStr ''Alpha'', PStr ''Beta'']),
         (''Federal Fund Sum'', [PInt 10, PInt 1]),
         (''Foreign Fund Sum'', [PInt 20, PInt 0]),
         (''Individual Fund Sum'', [PInt 30, PInt 2]),
         (''Industry Fund Sum'', [PInt 40, PInt 0]),
         (''Local Fund Sum'', [PInt 50, PInt 3]),
         (''Non-Profit Fund Sum'', [PInt 60, PInt 0]),
         (''Research Expenditures State Fund Sum'', [PInt 70, PInt 4])]\<rparr>"

definition research_totalled :: frame where
  "research_totalled =
     research_numeric\<lparr>columns := columns research_numeric @ [(total_column, [PInt 280, PInt 10])]\<rparr>"



section \<open>Text of numbers\<close>

text \<open>Python's \<^verbatim>\<open>str\<close> of an integer, as the f-strings of the source use it.\<close>

definition digit :: "nat \<Rightarrow> char" where
  "digit n = ''0123456789'' ! n"

fun str_nat :: "nat \<Rightarrow> string" where
  "str_nat n = (if n < 10 then [digit n] else str_nat (n div 10) @ [digit (n mod 10)])"

declare str_nat.simps [simp del]

definition str_int :: "int \<Rightarrow> string" where
  "str_int i = (if i < 0 then CHR ''-'' # str_nat (nat (- i)) else str_nat (nat i))"

text \<open>\<^verbatim>\<open>str(value)\<close> of a cell value.\<close>

fun py_str :: "pyval \<Rightarrow> string" where
  "py_str PNone = ''None''"
| "py_str (PStr s) = s"
| "py_str (PInt i) = str_int i"
| "py_str PNaN = ''nan''"

section \<open>Worksheets and the workbook\<close>

text \<open>
  A cell is addressed by its row and its column, both counted from 1: \<^verbatim>\<open>'B5'\<close> is
  \<open>(5, 2)\<close>. A worksheet holds the cells that exist, each with its value, in the order
  they were created, and what the source attaches to the sheet: fonts, the cells given a
  thin border and centred, column widths (keyed by the column's number, which
  \<^verbatim>\<open>get_column_letter\<close> turns into its letter), data validations and charts.
\<close>

type_synonym coord = "nat \<times> nat"

record font =
  bold :: bool
  font_size :: "nat option"

record data_validation =
  dv_type :: string
  formula1 :: string
  allow_blank :: bool
  sqref :: "coord list"

text \<open>
  \<^verbatim>\<open>Reference(ws, min_col, min_row, max_row)\<close>: one column, from \<open>min_row\<close> to
  \<open>max_row\<close>.
\<close>

record reference =
  min_col :: nat
  min_row :: nat
  max_row :: nat

text \<open>
  A bar chart: the references given to \<^verbatim>\<open>add_data\<close> in turn (each with
  \<^verbatim>\<open>titles_from_data=True\<close>, so that its first row names the series) and the
  reference given to \<^verbatim>\<open>set_categories\<close>.
\<close>

record chart =
  chart_title :: string
  chart_style :: nat
  series :: "reference list"
  categories :: "reference option"
  chart_height :: nat
  chart_width :: nat

record worksheet =
  title :: string
  cells :: "(coord \<times> pyval) list"
  fonts :: "(coord \<times> font) list"
  boxed :: "coord list"
  column_width :: "(nat \<times> nat) list"
  data_validations :: "data_validation list"
  charts :: "(string \<times> chart) list"

type_synonym workbook = "worksheet list"

definition new_sheet :: "string \<Rightarrow> worksheet" where
  "new_sheet t =
     \<lparr>title = t, cells = [], fonts = [], boxed = [], column_width = [],
      data_validations = [], charts = []\<rparr>"

text \<open>
  \<^verbatim>\<open>openpyxl.Workbook()\<close>: a new workbook is not empty, it has one worksheet, titled
  \<^verbatim>\<open>Sheet\<close>.
\<close>

definition Workbook :: workbook where
  "Workbook = [new_sheet ''Sheet'']"

text \<open>
  \<^verbatim>\<open>wb.create_sheet(title)\<close> appends a sheet after those the workbook has. The source
  fills the sheet in afterwards, through the reference it got; here the sheet is built
  first and then appended. The six titles the source uses differ from each other and
  from \<^verbatim>\<open>Sheet\<close>, so that the renaming of a duplicate title never applies.
\<close>

definition create_sheet :: "workbook \<Rightarrow> worksheet \<Rightarrow> workbook" where
  "create_sheet wb ws = wb @ [ws]"

definition value_at :: "worksheet \<Rightarrow> coord \<Rightarrow> pyval option" where
  "value_at ws rc = map_of (cells ws) rc"

text \<open>\<^verbatim>\<open>ws['B2']\<close>, \<^verbatim>\<open>ws.cell(row, column)\<close>: reading a cell creates it, empty, if need be.\<close>

definition touch :: "coord \<Rightarrow> worksheet \<Rightarrow> worksheet" where
  "touch rc ws =
     (case map_of (cells ws) rc of
        None \<Rightarrow> ws\<lparr>cells := cells ws @ [(rc, PNone)]\<rparr>
      | Some v \<Rightarrow> ws)"

text \<open>\<^verbatim>\<open>ws['A1'] = v\<close>.\<close>

definition set_value :: "coord \<Rightarrow> pyval \<Rightarrow> worksheet \<Rightarrow> worksheet" where
  "set_value rc v ws = ws\<lparr>cells := put rc v (cells ws)\<rparr>"

text \<open>
  \<^verbatim>\<open>ws.cell(row=r, column=c, value=v)\<close>: the cell is fetched, and assigned unless the
  value is \<^verbatim>\<open>None\<close>.
\<close>

definition cell_write :: "coord \<Rightarrow> pyval \<Rightarrow> worksheet \<Rightarrow> worksheet" where
  "cell_write rc v ws = (if v = PNone then touch rc ws else set_value rc v ws)"

text \<open>\<^verbatim>\<open>ws.max_row\<close> and \<^verbatim>\<open>ws.max_column\<close>, 0 on a sheet without cells.\<close>

definition max_row_of :: "worksheet \<Rightarrow> nat" where
  "max_row_of ws = foldr max (map (\<lambda>p. fst (fst p)) (cells ws)) 0"

definition max_column :: "worksheet \<Rightarrow> nat" where
  "max_column ws = foldr max (map (\<lambda>p. snd (fst p)) (cells ws)) 0"

section \<open>The sheet writer\<close>

text \<open>
  \<^verbatim>\<open>df.itertuples(index=False)\<close>: the records in order, each with its values in column
  order. The column names are not among them.
\<close>

definition itertuples :: "frame \<Rightarrow> pyval list list" where
  "itertuples df = map (\<lambda>r. map (\<lambda>p. snd p ! r) (columns df)) [0..<nrows df]"

text \<open>The inner loop, \<^verbatim>\<open>for c_idx, value in enumerate(row, 1)\<close>, from column \<open>c\<close> on.\<close>

fun write_row :: "nat \<Rightarrow> nat \<Rightarrow> pyval list \<Rightarrow> worksheet \<Rightarrow> worksheet" where
  "write_row r c [] ws = ws"
| "write_row r c (v # vs) ws = write_row r (Suc c) vs (cell_write (r, c) v ws)"

text \<open>The outer loop, \<^verbatim>\<open>for r_idx, row in enumerate(df.itertuples(index=False), 1)\<close>.\<close>

fun write_rows :: "nat \<Rightarrow> pyval list list \<Rightarrow> worksheet \<Rightarrow> worksheet" where
  "write_rows r [] ws = ws"
| "write_rows r (row # rows) ws = write_rows (Suc r) rows (write_row r 1 row ws)"

definition data_sheet :: "string \<Rightarrow> frame \<Rightarrow> worksheet" where
  "data_sheet t df = write_rows 1 (itertuples df) (new_sheet t)"

definition create_data_sheets :: "workbook \<Rightarrow> frame \<Rightarrow> frame \<Rightarrow> frame \<Rightarrow> workbook" where
  "create_data_sheets wb faculty_df degrees_df research_df =
     (let wb1 = create_sheet wb (data_sheet ''Faculty Data'' faculty_df);
          wb2 = create_sheet wb1 (data_sheet ''Degrees Data'' degrees_df)
      in create_sheet wb2 (data_sheet ''Research Data'' research_df))"

section \<open>The lookup builder\<close>

text \<open>
  \<^verbatim>\<open>Series.unique()\<close>: the distinct values in the order of their first appearance.
\<close>

definition unique :: "'a list \<Rightarrow> 'a list" where
  "unique xs = rev (remdups (rev xs))"

definition is_str :: "pyval \<Rightarrow> bool" where
  "is_str v = (case v of PStr s \<Rightarrow> True | _ \<Rightarrow> False)"

fun the_str :: "pyval \<Rightarrow> string" where
  "the_str (PStr s) = s"
| "the_str v = []"

text \<open>
  \<^verbatim>\<open>sorted(values)\<close>. Strings are put in ascending lexicographic order, numbers in
  ascending order, and a list of at most one value needs no comparison. Comparing a
  string with a number or a missing value raises \<^verbatim>\<open>TypeError\<close>, and so does comparing
  \<^verbatim>\<open>None\<close> with anything. The one case left, numbers together with \<^verbatim>\<open>nan\<close>, raises
  nothing in Python but has no order to speak of (every comparison with \<^verbatim>\<open>nan\<close> is
  false); the model does not describe that outcome and puts it with the errors.
\<close>

definition py_sorted :: "pyval list \<Rightarrow> error + pyval list" where
  "py_sorted vs =
     (if length vs \<le> 1 then Inr vs
      else if list_all is_str vs then Inr (map PStr (sort (map the_str vs)))
      else if list_all is_number vs then Inr (map PInt (sort (map amount vs)))
      else Inl TypeError)"

text \<open>The loop \<^verbatim>\<open>for idx, inst in enumerate(unique_institutions, 2): lookups[f'A{idx}'] = inst\<close>.\<close>

fun write_column :: "nat \<Rightarrow> pyval list \<Rightarrow> worksheet \<Rightarrow> worksheet" where
  "write_column idx [] ws = ws"
| "write_column idx (inst # insts) ws = write_column (Suc idx) insts (set_value (idx, 1) inst ws)"

definition lookups_sheet :: "pyval list \<Rightarrow> worksheet" where
  "lookups_sheet unique_institutions =
     write_column 2 unique_institutions
       (set_value (1, 1) (PStr ''Valid Institutions'') (new_sheet ''Lookups''))"

definition create_lookups_sheet :: "workbook \<Rightarrow> frame \<Rightarrow> error + workbook \<times> pyval list" where
  "create_lookups_sheet wb faculty_df =
     (case getitem faculty_df ''School Name'' of
        Inl e \<Rightarrow> Inl e
      | Inr names \<Rightarrow>
          (case py_sorted (unique names) of
             Inl e \<Rightarrow> Inl e
           | Inr unique_institutions \<Rightarrow>
               Inr (create_sheet wb (lookups_sheet unique_institutions), unique_institutions)))"

section \<open>The dashboards\<close>

text \<open>The formula text of one metrics row, as the f-strings of the source build it.\<close>

definition total_faculty_formula :: "nat \<Rightarrow> string" where
  "total_faculty_formula row =
     ''=SUMIFS('Faculty Data'!D:D,'Faculty Data'!B:B,$A'' @ str_nat row @ '') + ''
     @ ''SUMIFS('Faculty Data'!E:E,'Faculty Data'!B:B,$A'' @ str_nat row @ '') + ''
     @ ''SUMIFS('Faculty Data'!F:F,'Faculty Data'!B:B,$A'' @ str_nat row @ '')''"

text \<open>
  \<^verbatim>\<open>add_institution_academic_formulas\<close>: total faculty in column B, the three ratios
  in columns C, D and E.
\<close>

definition add_institution_academic_formulas :: "nat \<Rightarrow> worksheet \<Rightarrow> worksheet" where
  "add_institution_academic_formulas row dashboard =
     (let d1 = set_value (row, 2) (PStr (total_faculty_formula row)) dashboard;
          d2 = set_value (row, 3) (PStr (''=IFERROR(B'' @ str_nat row
                 @ ''/SUMIFS('Degrees Data'!E:E,'Degrees Data'!C:C,$A'' @ str_nat row @ ''),0)'')) d1;
          d3 = set_value (row, 4) (PStr (''=IFERROR(B'' @ str_nat row
                 @ ''/SUMIFS('Degrees Data'!F:F,'Degrees Data'!C:C,$A'' @ str_nat row @ ''),0)'')) d2
      in set_value (row, 5) (PStr (''=IFERROR(B'' @ str_nat row
                 @ ''/SUMIFS('Degrees Data'!G:G,'Degrees Data'!C:C,$A'' @ str_nat row @ ''),0)'')) d3)"

text \<open>
  \<^verbatim>\<open>add_institution_research_formulas\<close>: total faculty in column B, total research
  expenditures in column C, research dollars per faculty in column D.
\<close>

definition add_institution_research_formulas :: "nat \<Rightarrow> worksheet \<Rightarrow> worksheet" where
  "add_institution_research_formulas row dashboard =
     (let d1 = set_value (row, 2) (PStr (total_faculty_formula row)) dashboard;
          d2 = set_value (row, 3) (PStr (
                 ''=SUMIFS('Research Data'!D:D,'Research Data'!C:C,$A'' @ str_nat row @ '') + ''
                 @ ''SUMIFS('Research Data'!E:E,'Research Data'!C:C,$A'' @ str_nat row @ '') + ''
                 @ ''SUMIFS('Research Data'!F:F,'Research Data'!C:C,$A'' @ str_nat row @ '') + ''
                 @ ''SUMIFS('Research Data'!G:G,'Research Data'!C:C,$A'' @ str_nat row @ '') + ''
                 @ ''SUMIFS('Research Data'!H:H,'Research Data'!C:C,$A'' @ str_nat row @ '') + ''
                 @ ''SUMIFS('Research Data'!I:I,'Research Data'!C:C,$A'' @ str_nat row @ '') + ''
                 @ ''SUMIFS('Research Data'!J:J,'Research Data'!C:C,$A'' @ str_nat row @ '')'')) d1
      in set_value (row, 4) (PStr (''=IFERROR(C'' @ str_nat row @ ''/B'' @ str_nat row @ '',0)'')) d2)"

text \<open>
  \<^verbatim>\<open>add_academic_formulas\<close> and \<^verbatim>\<open>add_research_formulas\<close>: the row of the primary
  institution, then one row for each \<open>i\<close> of \<^verbatim>\<open>range(5)\<close>; \<open>per_row\<close> is the
  function that writes the metric columns of a row.
\<close>

definition add_formulas ::
  "(nat \<Rightarrow> worksheet \<Rightarrow> worksheet) \<Rightarrow> nat \<Rightarrow> worksheet \<Rightarrow> worksheet" where
  "add_formulas per_row start_row dashboard =
     (let row = start_row + 2;
          d1 = per_row row (set_value (row, 1) (PStr ''=B2'') dashboard)
      in fold (\<lambda>i d. let row = start_row + 3 + i
                      in per_row row (set_value (row, 1) (PStr (''=B'' @ str_nat (i + 5))) d))
           [0..<5] d1)"

definition add_academic_formulas :: "nat \<Rightarrow> worksheet \<Rightarrow> worksheet" where
  "add_academic_formulas start_row dashboard =
     add_formulas add_institution_academic_formulas start_row dashboard"

definition add_research_formulas :: "nat \<Rightarrow> worksheet \<Rightarrow> worksheet" where
  "add_research_formulas start_row dashboard =
     add_formulas add_institution_research_formulas start_row dashboard"

section \<open>Styling\<close>

definition set_font :: "coord \<Rightarrow> font \<Rightarrow> worksheet \<Rightarrow> worksheet" where
  "set_font rc f ws = (touch rc ws)\<lparr>fonts := put rc f (fonts (touch rc ws))\<rparr>"

text \<open>The thin border on four sides and the centred alignment of one cell.\<close>

definition box :: "coord \<Rightarrow> worksheet \<Rightarrow> worksheet" where
  "box rc ws = (touch rc ws)\<lparr>boxed := boxed (touch rc ws) @ [rc]\<rparr>"

text \<open>
  The value of each cell of column \<open>c\<close> from row 1 to row \<open>mr\<close>, as iterating
  \<^verbatim>\<open>dashboard.columns\<close> yields them: a cell that did not exist is created, empty.
\<close>

definition column_cells :: "nat \<Rightarrow> nat \<Rightarrow> worksheet \<Rightarrow> pyval list" where
  "column_cells mr c ws =
     map (\<lambda>r. case map_of (cells ws) (r, c) of None \<Rightarrow> PNone | Some v \<Rightarrow> v) [1..<mr + 1]"

text \<open>
  The inner loop of the width adjustment. The \<^verbatim>\<open>try\<close> around it has nothing to catch:
  \<^verbatim>\<open>str\<close> and \<^verbatim>\<open>len\<close> raise on no value of the model.
\<close>

fun longest :: "nat \<Rightarrow> pyval list \<Rightarrow> nat" where
  "longest max_length [] = max_length"
| "longest max_length (v # vs) =
     longest (if length (py_str v) > max_length then length (py_str v) else max_length) vs"

definition fit_column :: "nat \<Rightarrow> nat \<Rightarrow> worksheet \<Rightarrow> worksheet" where
  "fit_column mr c ws =
     (let col = column_cells mr c ws;
          ws1 = fold (\<lambda>r. touch (r, c)) [1..<mr + 1] ws
      in ws1\<lparr>column_width := put c (longest 0 col + 2) (column_width ws1)\<rparr>)"

text \<open>
  \<^verbatim>\<open>for col in dashboard.columns\<close>: the columns from 1 to the last one that has a
  cell, each over the rows from 1 to the last one that has a cell.
\<close>

definition adjust_widths :: "worksheet \<Rightarrow> worksheet" where
  "adjust_widths ws = fold (fit_column (max_row_of ws)) [1..<max_column ws + 1] ws"

definition style_dashboard :: "nat \<Rightarrow> nat \<Rightarrow> worksheet \<Rightarrow> worksheet" where
  "style_dashboard start_row num_columns dashboard =
     (let d1 = set_font (1, 1) \<lparr>bold = True, font_size = Some 14\<rparr> dashboard;
          d2 = set_font (start_row, 1) \<lparr>bold = True, font_size = None\<rparr> d1;
          d3 = fold (\<lambda>row d. fold (\<lambda>col. box (row, col)) [1..<num_columns + 1] d)
                 [start_row + 1..<start_row + 8] d2
      in adjust_widths d3)"

section \<open>Charts\<close>

definition create_academic_chart :: "nat \<Rightarrow> worksheet \<Rightarrow> worksheet" where
  "create_academic_chart start_row dashboard =
     (let data = map (\<lambda>col. \<lparr>min_col = col, min_row = start_row + 1, max_row = start_row + 7\<rparr>)
                   [3..<6];
          cats = \<lparr>min_col = 1, min_row = start_row + 2, max_row = start_row + 7\<rparr>;
          chart = \<lparr>chart_title = ''Faculty to Degree Ratios by Institution'', chart_style = 10,
                   series = data, categories = Some cats, chart_height = 15, chart_width = 25\<rparr>
      in dashboard\<lparr>charts := charts dashboard @ [(''G2'', chart)]\<rparr>)"

definition create_research_chart :: "nat \<Rightarrow> worksheet \<Rightarrow> worksheet" where
  "create_research_chart start_row dashboard =
     (let data = \<lparr>min_col = 4, min_row = start_row + 1, max_row = start_row + 7\<rparr>;
          cats = \<lparr>min_col = 1, min_row = start_row + 2, max_row = start_row + 7\<rparr>;
          chart = \<lparr>chart_title = ''Research Dollars per Faculty by Institution'', chart_style = 10,
                   series = [data], categories = Some cats, chart_height = 15, chart_width = 25\<rparr>
      in dashboard\<lparr>charts := charts dashboard @ [(''G2'', chart)]\<rparr>)"

section \<open>The two dashboard sheets and the workbook\<close>

text \<open>
  The part the two dashboard builders share word for word: the three labels, the list
  validation over the lookup range, attached to the selector cell \<^verbatim>\<open>B2\<close> and to the five
  comparison selectors \<^verbatim>\<open>B5\<close> to \<^verbatim>\<open>B9\<close>, the section title in row 12 and the headers in
  row 13. The sheet keeps the validation object itself, so the cells added to it after
  \<^verbatim>\<open>add_data_validation\<close> are part of it.
\<close>

definition dashboard_frame ::
  "string \<Rightarrow> string \<Rightarrow> string list \<Rightarrow> pyval list \<Rightarrow> worksheet" where
  "dashboard_frame sheet_title heading headers unique_institutions =
     (let d0 = new_sheet sheet_title;
          d1 = set_value (1, 1) (PStr heading) d0;
          d2 = set_value (2, 1) (PStr ''Primary Institution:'') d1;
          d3 = set_value (4, 1) (PStr ''Comparison Institutions:'') d2;
          dv = \<lparr>dv_type = ''list'',
                formula1 = ''=Lookups!$A$2:$A$'' @ str_nat (length unique_institutions + 1),
                allow_blank = True,
                sqref = (2, 2) # map (\<lambda>i. (i + 5, 2)) [0..<5]\<rparr>;
          d4 = touch (2, 2) (d3\<lparr>data_validations := data_validations d3 @ [dv]\<rparr>);
          d5 = fold (\<lambda>i d. let row = i + 5
                           in touch (row, 2)
                                (set_value (row, 1) (PStr (''Institution '' @ str_nat (i + 1))) d))
                 [0..<5] d4;
          metrics_start_row = 12;
          d6 = set_value (metrics_start_row, 1) (PStr ''Metrics Summary'') d5
      in fold (\<lambda>p. cell_write (metrics_start_row + 1, fst p) (PStr (snd p)))
           (enumerate 1 headers) d6)"

definition academic_headers :: "string list" where
  "academic_headers =
     [''Institution'', ''Total Faculty'', ''Faculty:Bachelors'', ''Faculty:Masters'',
      ''Faculty:Doctoral'']"

definition research_headers :: "string list" where
  "research_headers =
     [''Institution'', ''Total Faculty'', ''Total Research Expenditures'',
      ''Research $ per Faculty'']"

definition academic_dashboard :: "pyval list \<Rightarrow> worksheet" where
  "academic_dashboard unique_institutions =
     (let metrics_start_row = 12;
          d = dashboard_frame ''Academic Dashboard'' ''Academic Metrics Dashboard''
                academic_headers unique_institutions;
          d1 = add_academic_formulas metrics_start_row d;
          d2 = style_dashboard metrics_start_row (length academic_headers) d1
      in create_academic_chart metrics_start_row d2)"

definition research_dashboard :: "pyval list \<Rightarrow> worksheet" where
  "research_dashboard unique_institutions =
     (let metrics_start_row = 12;
          d = dashboard_frame ''Research Dashboard'' ''Research Metrics Dashboard''
                research_headers unique_institutions;
          d1 = add_research_formulas metrics_start_row d;
          d2 = style_dashboard metrics_start_row (length research_headers) d1
      in create_research_chart metrics_start_row d2)"

definition create_academic_dashboard :: "workbook \<Rightarrow> pyval list \<Rightarrow> workbook" where
  "create_academic_dashboard wb unique_institutions =
     create_sheet wb (academic_dashboard unique_institutions)"

definition create_research_dashboard :: "workbook \<Rightarrow> pyval list \<Rightarrow> workbook" where
  "create_research_dashboard wb unique_institutions =
     create_sheet wb (research_dashboard unique_institutions)"

text \<open>
  \<^verbatim>\<open>create_dashboard_workbook\<close>, from the three tables \<^verbatim>\<open>pd.read_excel\<close> returned
  to the workbook handed to \<^verbatim>\<open>wb.save\<close>.
\<close>

definition create_dashboard_workbook :: "frame \<Rightarrow> frame \<Rightarrow> frame \<Rightarrow> error + workbook" where
  "create_dashboard_workbook faculty_df degrees_df research_df =
     (case add_total research_df of
        Inl e \<Rightarrow> Inl e
      | Inr research_df' \<Rightarrow>
          (let wb = Workbook;
               wb1 = create_data_sheets wb faculty_df degrees_df research_df'
           in case create_lookups_sheet wb1 faculty_df of
                Inl e \<Rightarrow> Inl e
              | Inr (wb2, unique_institutions) \<Rightarrow>
                  Inr (create_research_dashboard
                         (create_academic_dashboard wb2 unique_institutions)
                         unique_institutions)))"

section \<open>Reading the result\<close>

text \<open>
  What the sheet written from a table is expected to hold at row \<open>r\<close>, column \<open>c\<close>:
  the value of record \<open>r\<close> in the \<open>c\<close>-th column, both counted from 1, and no cell
  outside the table.
\<close>

definition table_cell :: "frame \<Rightarrow> nat \<Rightarrow> nat \<Rightarrow> pyval option" where
  "table_cell df r c =
     (if 1 \<le> r \<and> r \<le> nrows df \<and> 1 \<le> c \<and> c \<le> length (columns df)
      then Some (snd (columns df ! (c - 1)) ! (r - 1)) else None)"

text \<open>A faculty table with a school that occurs twice, and a degrees table.\<close>

definition faculty_example :: frame where
  "faculty_example =
     \<lparr>nrows = 3,
      columns =
        [(''Year'', [PInt 2023, PInt 2023, PInt 2022]),
         (''School Name'', [PStr ''Beta'', PStr ''Alpha'', PStr ''Beta'']),
         (''Unit ID'', [PInt 2, PInt 1, PInt 2]),
         (''Assistant Professor'', [PInt 0, PInt 1, PInt 0]),
         (''Associate Professor'', [PInt 0, PInt 2, PInt 0]),
         (''Professor'', [PInt 0, PInt 3, PInt 0])]\<rparr>"

definition degrees_example :: frame where
  "degrees_example =
     \<lparr>nrows = 2,
      columns =
        [(''Year'', [PInt 2023, PInt 2023]),
         (''Unit ID'', [PInt 1, PInt 2]),
         (''School Name'', [PStr ''Alpha'', PStr ''Beta'']),
         (''Sector'', [PStr ''Public'', PStr ''Public'']),
         (''Bachelors'', [PInt 12, PInt 0]),
         (''Masters'', [PInt 6, PInt 0]),
         (''Doctoral'', [PInt 3, PNaN])]\<rparr>"

text \<open>
  What the Lookups sheet is expected to hold for the institution list \<open>insts\<close>: the
  label, the list below it, nothing else.
\<close>

definition lookups_cell :: "string list \<Rightarrow> nat \<Rightarrow> nat \<Rightarrow> pyval option" where
  "lookups_cell insts r c =
     (if c = 1 \<and> r = 1 then Some (PStr ''Valid Institutions'')
      else if c = 1 \<and> 2 \<le> r \<and> r \<le> length insts + 1 then Some (PStr (insts ! (r - 2)))
      else None)"

text \<open>
  All cells of the sheet lie in rows 1 to \<open>R\<close> and columns 1 to \<open>C\<close>.
\<close>

definition within :: "nat \<Rightarrow> nat \<Rightarrow> worksheet \<Rightarrow> bool" where
  "within R C ws =
     list_all (\<lambda>p. 1 \<le> fst (fst p) \<and> fst (fst p) \<le> R \<and> 1 \<le> snd (fst p) \<and> snd (fst p) \<le> C)
       (cells ws)"

text \<open>
  The value read at a coordinate, \<^verbatim>\<open>None\<close> where there is no cell.
\<close>

definition seen :: "worksheet \<Rightarrow> coord \<Rightarrow> pyval" where
  "seen ws rc = (case value_at ws rc of None \<Rightarrow> PNone | Some v \<Rightarrow> v)"

text \<open>
  The cell holds text that starts with an equals sign: a formula for the spreadsheet.
\<close>

definition is_formula :: "pyval option \<Rightarrow> bool" where
  "is_formula x = (case x of Some (PStr s) \<Rightarrow> take 1 s = ''='' | _ \<Rightarrow> False)"

text \<open>
  The columns the charts of a sheet take their series from.
\<close>

definition plotted_columns :: "worksheet \<Rightarrow> nat list" where
  "plotted_columns ws = concat (map (\<lambda>p. map min_col (series (snd p))) (charts ws))"

text \<open>
  The two dashboards as they stand before styling: labels, selectors, headers and
  formulas.
\<close>

definition academic_plain :: "pyval list \<Rightarrow> worksheet" where
  "academic_plain insts =
     add_academic_formulas 12
       (dashboard_frame ''Academic Dashboard'' ''Academic Metrics Dashboard'' academic_headers insts)"

definition research_plain :: "pyval list \<Rightarrow> worksheet" where
  "research_plain insts =
     add_research_formulas 12
       (dashboard_frame ''Research Dashboard'' ''Research Metrics Dashboard'' research_headers insts)"

text \<open>
  The first column of the six data rows: references to the primary selector \<^verbatim>\<open>B2\<close>
  and to the comparison selectors \<^verbatim>\<open>B5\<close> to \<^verbatim>\<open>B9\<close>.
\<close>

definition selector_refs :: "string list" where
  "selector_refs = [''=B2'', ''=B5'', ''=B6'', ''=B7'', ''=B8'', ''=B9'']"

text \<open>
  The metrics table of a dashboard: the headers in row 13, from column 1; six data rows,
  14 to 19, each starting with the reference to its selector and holding a formula in
  every column under a header; no cell outside rows 1 to 19 and the columns under the
  headers, row 19 being the last row of the sheet.
\<close>

definition metrics_table :: "worksheet \<Rightarrow> string list \<Rightarrow> bool" where
  "metrics_table ws headers \<longleftrightarrow>
     map (\<lambda>c. value_at ws (13, c)) [1..<length headers + 1] = map (\<lambda>h. Some (PStr h)) headers \<and>
     map (\<lambda>r. value_at ws (r, 1)) [14..<20] = map (\<lambda>s. Some (PStr s)) selector_refs \<and>
     list_all (\<lambda>r. list_all (\<lambda>c. is_formula (value_at ws (r, c))) [1..<length headers + 1])
       [14..<20] \<and>
     within 19 (length headers) ws \<and> max_row_of ws = 19"

text \<open>
  The workbook generated from the example tables.
\<close>

definition example_workbook :: "error + workbook" where
  "example_workbook = create_dashboard_workbook faculty_example degrees_example research_numeric"

text \<open>
  The titles of the sheets of a generated workbook, in order.
\<close>

definition sheet_titles :: "string list" where
  "sheet_titles =
     [''Sheet'', ''Faculty Data'', ''Degrees Data'', ''Research Data'', ''Lookups'',
      ''Academic Dashboard'', ''Research Dashboard'']"

section \<open>Properties of the aggregator\<close>




lemma map_of_put_same: "map_of (put k v ps) k = Some v"
  by (induction ps) auto

lemma map_of_put_other: "k' \<noteq> k \<Longrightarrow> map_of (put k v ps) k' = map_of ps k'"
  by (induction ps) auto

lemma put_put: "put k v (put k w ps) = put k v ps"
  by (induction ps) auto

lemma is_number_simps [simp]:
  "is_number (PInt i)" "\<not> is_number (PStr s)" "\<not> is_number PNaN" "\<not> is_number PNone"
  by (simp_all add: is_number_def)



lemma total_not_fund: "total_column \<notin> set fund_columns"
  by (simp add: total_column_def fund_columns_def)


lemma getitem_put_other:
  "x \<noteq> name \<Longrightarrow> getitem (df\<lparr>columns := put name vs (columns df)\<rparr>) x = getitem df x"
  by (simp add: getitem_def map_of_put_other)

lemma getitems_put:
  "name \<notin> set names \<Longrightarrow>
   getitems (df\<lparr>columns := put name vs (columns df)\<rparr>) names = getitems df names"
proof -
  assume "name \<notin> set names"
  then have "map (getitem (df\<lparr>columns := put name vs (columns df)\<rparr>)) names = map (getitem df) names"
    by (intro map_cong refl getitem_put_other) auto
  then show ?thesis unfolding getitems_def by (rule arg_cong)
qed











lemma upt_2: "[0..<2] = [0, Suc 0]"
  by (simp add: upt_rec)


lemma add_total_research_numeric: "add_total research_numeric = Inr research_totalled"
  by (simp add: add_total_def getitems_def getitem_def sum_axis1_def setitem_def upt_2
      fund_columns_def total_column_def research_numeric_def research_totalled_def)

lemma add_total_research_totalled: "add_total research_totalled = Inr research_totalled"
  by (simp add: add_total_def getitems_def getitem_def sum_axis1_def setitem_def upt_2
      fund_columns_def total_column_def research_numeric_def research_totalled_def)


text \<open>
  Claim C3 says that applying the aggregator to a table that already carries the total
  appends a second total column. It does not: assigning to a column name that exists
  replaces that column where it stands. Applied to its own output on the first example, the
  aggregator returns that output, in which the total column occurs once.
\<close>

theorem reapplied_total_counterexample:
  "add_total research_numeric = Inr research_totalled \<and>
   add_total research_totalled = Inr research_totalled \<and>
   count_list (map fst (columns research_totalled)) total_column = 1"
proof -
  have "count_list (map fst (columns research_totalled)) total_column = 1"
    by (simp add: research_totalled_def research_numeric_def total_column_def)
  then show ?thesis
    by (simp only: add_total_research_numeric add_total_research_totalled simp_thms)
qed

text \<open>
  Claim C3, amended. The aggregator is idempotent: applied to a table it has produced, it
  recomputes the same totals, writes them over the total column and so returns the table
  unchanged; no second total column is appended.
\<close>

theorem add_total_idempotent: "add_total df = Inr df' \<Longrightarrow> add_total df' = Inr df'"
  by (auto simp: add_total_def getitems_put total_not_fund setitem_def put_put split: sum.splits)

theorem add_total_idempotent_witness:
  "add_total research_numeric = Inr research_totalled \<and>
   add_total research_totalled = Inr research_totalled"
  using add_total_idempotent [OF add_total_research_numeric] add_total_research_numeric by simp

section \<open>Properties of the sheet writer\<close>

lemma map_of_put: "map_of (put k v ps) k' = (if k' = k then Some v else map_of ps k')"
  by (simp add: map_of_put_same map_of_put_other)

lemma value_at_set_value:
  "value_at (set_value rc v ws) k = (if k = rc then Some v else value_at ws k)"
  by (simp add: value_at_def set_value_def map_of_put)

lemma value_at_touch:
  "value_at (touch rc ws) k =
     (if k = rc \<and> value_at ws rc = None then Some PNone else value_at ws k)"
  by (auto simp: value_at_def touch_def map_add_def split: option.splits)

lemma value_at_cell_write:
  "value_at ws rc = None \<Longrightarrow>
   value_at (cell_write rc v ws) k = (if k = rc then Some v else value_at ws k)"
  by (simp add: cell_write_def value_at_set_value value_at_touch)

lemma value_at_write_row:
  "(\<And>c'. c \<le> c' \<Longrightarrow> value_at ws (r, c') = None) \<Longrightarrow>
   value_at (write_row r c vs ws) (r', c') =
     (if r' = r \<and> c \<le> c' \<and> c' < c + length vs then Some (vs ! (c' - c))
      else value_at ws (r', c'))"
proof (induction vs arbitrary: c ws)
  case Nil
  then show ?case by simp
next
  case (Cons v vs)
  let ?ws = "cell_write (r, c) v ws"
  have here: "value_at ws (r, c) = None"
    using Cons.prems by simp
  have step: "value_at ?ws k = (if k = (r, c) then Some v else value_at ws k)" for k
    using here by (rule value_at_cell_write)
  have free: "value_at ?ws (r, c'') = None" if "Suc c \<le> c''" for c''
    using that Cons.prems [of c''] by (simp add: step)
  have "value_at (write_row r (Suc c) vs ?ws) (r', c') =
          (if r' = r \<and> Suc c \<le> c' \<and> c' < Suc c + length vs then Some (vs ! (c' - Suc c))
           else value_at ?ws (r', c'))"
    by (rule Cons.IH) (rule free)
  then show ?case
    by (auto simp: step nth_Cons' Suc_diff_Suc not_less_eq_eq less_Suc_eq_le)
qed

lemma value_at_write_rows:
  "(\<And>r' c'. r \<le> r' \<Longrightarrow> value_at ws (r', c') = None) \<Longrightarrow>
   value_at (write_rows r rows ws) (r', c') =
     (if r \<le> r' \<and> r' < r + length rows \<and> 1 \<le> c' \<and> c' \<le> length (rows ! (r' - r))
      then Some (rows ! (r' - r) ! (c' - 1))
      else value_at ws (r', c'))"
proof (induction rows arbitrary: r ws)
  case Nil
  then show ?case by simp
next
  case (Cons row rows)
  let ?ws = "write_row r (Suc 0) row ws"
  have "value_at (write_row r 1 row ws) (r'', c'') =
      (if r'' = r \<and> 1 \<le> c'' \<and> c'' < 1 + length row then Some (row ! (c'' - 1))
       else value_at ws (r'', c''))" for r'' c''
    by (rule value_at_write_row) (simp add: Cons.prems)
  then have step: "value_at ?ws (r'', c'') =
      (if r'' = r \<and> Suc 0 \<le> c'' \<and> c'' \<le> length row then Some (row ! (c'' - Suc 0))
       else value_at ws (r'', c''))" for r'' c''
    by (simp add: less_Suc_eq_le)
  have free: "value_at ?ws (r'', c'') = None" if "Suc r \<le> r''" for r'' c''
    using that Cons.prems [of r'' c''] by (simp add: step)
  have "value_at (write_rows (Suc r) rows ?ws) (r', c') =
     (if Suc r \<le> r' \<and> r' < Suc r + length rows \<and> 1 \<le> c' \<and> c' \<le> length (rows ! (r' - Suc r))
      then Some (rows ! (r' - Suc r) ! (c' - 1))
      else value_at ?ws (r', c'))"
    by (rule Cons.IH) (rule free)
  then show ?case
    by (auto simp: step nth_Cons' Suc_diff_Suc not_less_eq_eq less_Suc_eq_le)
qed

lemma value_at_data_sheet: "value_at (data_sheet t df) (r, c) = table_cell df r c"
proof -
  have "value_at (write_rows 1 (itertuples df) (new_sheet t)) (r, c) =
     (if 1 \<le> r \<and> r < 1 + length (itertuples df) \<and> 1 \<le> c \<and> c \<le> length (itertuples df ! (r - 1))
      then Some (itertuples df ! (r - 1) ! (c - 1))
      else value_at (new_sheet t) (r, c))"
    by (rule value_at_write_rows) (simp add: value_at_def new_sheet_def)
  then show ?thesis
    by (auto simp: data_sheet_def table_cell_def itertuples_def value_at_def new_sheet_def)
qed


lemma title_write_row: "title (write_row r c vs ws) = title ws"
  by (induction vs arbitrary: c ws)
     (auto simp: cell_write_def touch_def set_value_def split: option.splits)

lemma title_write_rows: "title (write_rows r rows ws) = title ws"
  by (induction rows arbitrary: r ws) (auto simp: title_write_row)

lemma title_data_sheet: "title (data_sheet t df) = t"
  by (simp add: data_sheet_def title_write_rows new_sheet_def)

text \<open>
  Claim C8. The sheet writer appends three sheets, one per table, titled Faculty Data,
  Degrees Data and Research Data. In each, the cell at row \<open>r\<close>, column \<open>c\<close> holds
  the value of record \<open>r\<close> in column \<open>c\<close> of the table, rows and columns counted
  from 1 in the table's own order, and there is no other cell: the column names are not
  written, row 1 is the first record.
\<close>

theorem sheet_writer_copies_tables:
  assumes "wf_frame faculty_df" and "wf_frame degrees_df" and "wf_frame research_df"
  shows "\<exists>fs ds rs.
           create_data_sheets wb faculty_df degrees_df research_df = wb @ [fs, ds, rs] \<and>
           title fs = ''Faculty Data'' \<and> title ds = ''Degrees Data'' \<and>
           title rs = ''Research Data'' \<and>
           (\<forall>r c. value_at fs (r, c) = table_cell faculty_df r c) \<and>
           (\<forall>r c. value_at ds (r, c) = table_cell degrees_df r c) \<and>
           (\<forall>r c. value_at rs (r, c) = table_cell research_df r c)"
proof -
  have "create_data_sheets wb faculty_df degrees_df research_df =
          wb @ [data_sheet ''Faculty Data'' faculty_df, data_sheet ''Degrees Data'' degrees_df,
                data_sheet ''Research Data'' research_df]"
    by (simp add: create_data_sheets_def create_sheet_def)
  then show ?thesis
    by (simp add: title_data_sheet value_at_data_sheet)
qed

theorem sheet_writer_copies_tables_witness:
  "wf_frame faculty_example \<and> wf_frame degrees_example \<and> wf_frame research_totalled \<and>
   (\<exists>fs ds rs.
      create_data_sheets Workbook faculty_example degrees_example research_totalled =
        Workbook @ [fs, ds, rs] \<and>
      value_at fs (1, 2) = Some (PStr ''Beta'') \<and> value_at fs (3, 6) = Some (PInt 0) \<and>
      value_at fs (4, 1) = None \<and>
      value_at ds (2, 7) = Some PNaN \<and> value_at ds (1, 8) = None \<and>
      value_at rs (1, 11) = Some (PInt 280) \<and> value_at rs (2, 3) = Some (PStr ''Beta''))"
proof -
  have h1: "wf_frame faculty_example"
    by (simp add: wf_frame_def faculty_example_def)
  have h2: "wf_frame degrees_example"
    by (simp add: wf_frame_def degrees_example_def)
  have h3: "wf_frame research_totalled"
    by (simp add: wf_frame_def research_totalled_def research_numeric_def)
  from sheet_writer_copies_tables [OF h1 h2 h3, of Workbook] obtain fs ds rs where
    "create_data_sheets Workbook faculty_example degrees_example research_totalled =
       Workbook @ [fs, ds, rs]"
    and f: "\<forall>r c. value_at fs (r, c) = table_cell faculty_example r c"
    and d: "\<forall>r c. value_at ds (r, c) = table_cell degrees_example r c"
    and r: "\<forall>r c. value_at rs (r, c) = table_cell research_totalled r c"
    by blast
  moreover have "value_at fs (1, 2) = Some (PStr ''Beta'')" "value_at fs (3, 6) = Some (PInt 0)"
    "value_at fs (4, 1) = None"
    by (simp_all add: f table_cell_def faculty_example_def)
  moreover have "value_at ds (2, 7) = Some PNaN" "value_at ds (1, 8) = None"
    by (simp_all add: d table_cell_def degrees_example_def)
  moreover have "value_at rs (1, 11) = Some (PInt 280)" "value_at rs (2, 3) = Some (PStr ''Beta'')"
    by (simp_all add: r table_cell_def research_totalled_def research_numeric_def)
  ultimately show ?thesis
    using h1 h2 h3 by blast
qed

section \<open>Properties of the lookup builder\<close>

lemma set_unique: "set (unique xs) = set xs"
  by (simp add: unique_def)

lemma distinct_unique: "distinct (unique xs)"
  by (simp add: unique_def)

lemma is_str_simps [simp]:
  "is_str (PStr s)" "\<not> is_str (PInt i)" "\<not> is_str PNaN" "\<not> is_str PNone"
  by (simp_all add: is_str_def)

lemma is_str_the_str: "is_str v \<Longrightarrow> PStr (the_str v) = v"
  by (cases v) simp_all

lemma map_PStr_the_str: "list_all is_str vs \<Longrightarrow> map PStr (map the_str vs) = vs"
  by (induction vs) (simp_all add: is_str_the_str)

lemma inj_on_the_str: "list_all is_str vs \<Longrightarrow> inj_on the_str (set vs)"
  by (rule inj_onI) (metis is_str_the_str list_all_iff)

lemma sort_short: "length xs \<le> 1 \<Longrightarrow> sort xs = xs"
  by (cases xs) auto

lemma py_sorted_strings:
  assumes "list_all is_str vs"
  shows "py_sorted vs = Inr (map PStr (sort (map the_str vs)))"
proof (cases "length vs \<le> 1")
  case True
  then have "sort (map the_str vs) = map the_str vs"
    by (intro sort_short) simp
  then have "map PStr (sort (map the_str vs)) = vs"
    by (simp only: map_PStr_the_str [OF assms])
  with True show ?thesis
    unfolding py_sorted_def by (simp only: if_True)
next
  case False
  with assms show ?thesis
    by (simp add: py_sorted_def)
qed

lemma value_at_write_column:
  "value_at (write_column idx insts ws) (r, c) =
     (if c = 1 \<and> idx \<le> r \<and> r < idx + length insts then Some (insts ! (r - idx))
      else value_at ws (r, c))"
proof (induction insts arbitrary: idx ws)
  case Nil
  then show ?case by auto
next
  case (Cons inst insts)
  show ?case
    by (auto simp: Cons.IH value_at_set_value nth_Cons' Suc_diff_Suc not_less_eq_eq less_Suc_eq_le)
qed

lemma title_write_column: "title (write_column idx insts ws) = title ws"
  by (induction insts arbitrary: idx ws) (simp_all add: set_value_def)

lemma value_at_new_sheet: "value_at (new_sheet t) rc = None"
  by (simp add: value_at_def new_sheet_def)

lemma value_at_lookups_sheet:
  "value_at (lookups_sheet (map PStr insts)) (r, c) = lookups_cell insts r c"
  by (auto simp: lookups_sheet_def lookups_cell_def value_at_write_column value_at_set_value
      value_at_new_sheet)

text \<open>
  Claim C4. For a faculty table whose School Name column holds strings, the lookup builder
  succeeds and returns the institution list: exactly the names that occur in the column,
  in ascending lexicographic order and without duplicates. The Lookups sheet holds the
  label in row 1 of column 1, the \<open>N\<close> names in rows 2 to \<open>N + 1\<close> of column 1 in
  that order, and no other cell.
\<close>

theorem lookups_sheet_lists_institutions:
  assumes col: "getitem faculty_df ''School Name'' = Inr names"
    and strs: "list_all is_str names"
  shows "\<exists>ws insts.
           create_lookups_sheet wb faculty_df = Inr (wb @ [ws], map PStr insts) \<and>
           title ws = ''Lookups'' \<and>
           PStr ` set insts = set names \<and> sorted insts \<and> distinct insts \<and>
           (\<forall>r c. value_at ws (r, c) = lookups_cell insts r c)"
proof -
  let ?insts = "sort (map the_str (unique names))"
  have u: "list_all is_str (unique names)"
    using strs by (simp add: list_all_iff set_unique)
  have run: "create_lookups_sheet wb faculty_df =
               Inr (wb @ [lookups_sheet (map PStr ?insts)], map PStr ?insts)"
    by (simp add: create_lookups_sheet_def col py_sorted_strings [OF u] create_sheet_def)
  have "PStr ` set ?insts = set (map PStr (map the_str (unique names)))"
    by (simp add: image_image)
  also have "\<dots> = set names"
    by (simp only: map_PStr_the_str [OF u] set_unique)
  finally have mem: "PStr ` set ?insts = set names" .
  have dist: "distinct ?insts"
    using inj_on_the_str [OF u] by (simp add: distinct_map distinct_unique)
  have "title (lookups_sheet (map PStr ?insts)) = ''Lookups''"
    by (simp add: lookups_sheet_def title_write_column set_value_def new_sheet_def)
  moreover have "sorted ?insts"
    by simp
  moreover have "\<forall>r c. value_at (lookups_sheet (map PStr ?insts)) (r, c) = lookups_cell ?insts r c"
    by (simp add: value_at_lookups_sheet)
  ultimately show ?thesis
    using run mem dist by blast
qed

theorem lookups_sheet_lists_institutions_witness:
  "getitem faculty_example ''School Name'' = Inr [PStr ''Beta'', PStr ''Alpha'', PStr ''Beta''] \<and>
   list_all is_str [PStr ''Beta'', PStr ''Alpha'', PStr ''Beta''] \<and>
   (\<exists>ws. create_lookups_sheet Workbook faculty_example =
            Inr (Workbook @ [ws], [PStr ''Alpha'', PStr ''Beta'']) \<and>
          value_at ws (1, 1) = Some (PStr ''Valid Institutions'') \<and>
          value_at ws (2, 1) = Some (PStr ''Alpha'') \<and>
          value_at ws (3, 1) = Some (PStr ''Beta'') \<and>
          value_at ws (4, 1) = None \<and> value_at ws (1, 2) = None)"
proof -
  have h1: "getitem faculty_example ''School Name'' =
              Inr [PStr ''Beta'', PStr ''Alpha'', PStr ''Beta'']"
    by (simp add: getitem_def faculty_example_def)
  have h2: "list_all is_str [PStr ''Beta'', PStr ''Alpha'', PStr ''Beta'']"
    by simp
  from lookups_sheet_lists_institutions [OF h1 h2, of Workbook] obtain ws insts where
    run: "create_lookups_sheet Workbook faculty_example = Inr (Workbook @ [ws], map PStr insts)"
    and cells: "\<forall>r c. value_at ws (r, c) = lookups_cell insts r c"
    by blast
  have "create_lookups_sheet Workbook faculty_example =
          Inr (create_sheet Workbook (lookups_sheet [PStr ''Alpha'', PStr ''Beta'']),
               [PStr ''Alpha'', PStr ''Beta''])"
    by (simp add: create_lookups_sheet_def h1 unique_def py_sorted_def)
  with run have "map PStr insts = [PStr ''Alpha'', PStr ''Beta'']"
    by simp
  then have insts: "insts = [''Alpha'', ''Beta'']"
    by (auto simp: map_eq_Cons_conv)
  have "value_at ws (1, 1) = Some (PStr ''Valid Institutions'')"
    "value_at ws (2, 1) = Some (PStr ''Alpha'')" "value_at ws (3, 1) = Some (PStr ''Beta'')"
    "value_at ws (4, 1) = None" "value_at ws (1, 2) = None"
    by (simp_all add: cells lookups_cell_def insts)
  with h1 h2 run insts show ?thesis
    by auto
qed

section \<open>Properties of the dashboards and of the workbook\<close>

subsection \<open>Cells, bounds and widths\<close>

lemma range5: "[0..<5] = [0, 1, 2, 3, 4]"
  by (simp add: upt_rec)

lemma fold_keeps:
  "(\<And>x s. g (f x s) = g s) \<Longrightarrow> g (fold f xs s) = g s"
  by (induction xs arbitrary: s) simp_all

lemma value_at_iff_key: "value_at ws k \<noteq> None \<longleftrightarrow> k \<in> fst ` set (cells ws)"
  by (simp add: value_at_def map_of_eq_None_iff)

lemma keys_put: "fst ` set (put k v ps) = insert k (fst ` set ps)"
  by (induction ps) auto

lemma keys_set_value: "fst ` set (cells (set_value rc v ws)) = insert rc (fst ` set (cells ws))"
  by (simp add: set_value_def keys_put)

lemma keys_touch: "fst ` set (cells (touch rc ws)) = insert rc (fst ` set (cells ws))"
proof (cases "map_of (cells ws) rc")
  case None
  then show ?thesis
    by (simp add: touch_def)
next
  case (Some v)
  then have "(rc, v) \<in> set (cells ws)"
    by (rule map_of_SomeD)
  then have "rc \<in> fst ` set (cells ws)"
    by force
  with Some show ?thesis
    by (simp add: touch_def insert_absorb)
qed

lemma within_keys:
  "within R C ws \<longleftrightarrow>
     (\<forall>k \<in> fst ` set (cells ws). 1 \<le> fst k \<and> fst k \<le> R \<and> 1 \<le> snd k \<and> snd k \<le> C)"
  by (simp add: within_def list_all_iff)

lemma within_iff:
  "within R C ws \<longleftrightarrow>
     (\<forall>r c. value_at ws (r, c) \<noteq> None \<longrightarrow> 1 \<le> r \<and> r \<le> R \<and> 1 \<le> c \<and> c \<le> C)"
  unfolding within_keys value_at_iff_key by force

lemma within_new_sheet [simp]: "within R C (new_sheet t)"
  by (simp add: within_def new_sheet_def)

lemma within_set_value [simp]:
  "within R C (set_value (r, c) v ws) \<longleftrightarrow>
     within R C ws \<and> 1 \<le> r \<and> r \<le> R \<and> 1 \<le> c \<and> c \<le> C"
  unfolding within_keys keys_set_value by auto

lemma within_touch [simp]:
  "within R C (touch (r, c) ws) \<longleftrightarrow>
     within R C ws \<and> 1 \<le> r \<and> r \<le> R \<and> 1 \<le> c \<and> c \<le> C"
  unfolding within_keys keys_touch by auto

lemma cell_write_str [simp]: "cell_write rc (PStr s) ws = set_value rc (PStr s) ws"
  by (simp add: cell_write_def)

lemma foldr_max_le: "foldr max xs 0 \<le> (n::nat) \<longleftrightarrow> (\<forall>x \<in> set xs. x \<le> n)"
  by (induction xs) auto

lemma max_row_of_le: "within R C ws \<Longrightarrow> max_row_of ws \<le> R"
  by (auto simp: max_row_of_def foldr_max_le within_keys)

lemma max_column_le: "within R C ws \<Longrightarrow> max_column ws \<le> C"
  by (auto simp: max_column_def foldr_max_le within_keys)

lemma key_le_max:
  assumes "value_at ws (r, c) \<noteq> None"
  shows "r \<le> max_row_of ws" and "c \<le> max_column ws"
proof -
  from assms have k: "(r, c) \<in> fst ` set (cells ws)"
    using value_at_iff_key by blast
  have "\<forall>x \<in> set (map (\<lambda>p. fst (fst p)) (cells ws)). x \<le> max_row_of ws"
    unfolding max_row_of_def by (simp only: foldr_max_le [symmetric] order_refl)
  with k show "r \<le> max_row_of ws"
    by force
  have "\<forall>x \<in> set (map (\<lambda>p. snd (fst p)) (cells ws)). x \<le> max_column ws"
    unfolding max_column_def by (simp only: foldr_max_le [symmetric] order_refl)
  with k show "c \<le> max_column ws"
    by force
qed

lemma longest_ge: "m \<le> longest m vs"
proof (induction vs arbitrary: m)
  case Nil
  then show ?case by simp
next
  case (Cons v vs)
  have "m \<le> (if m < length (py_str v) then length (py_str v) else m)"
    by simp
  also have "\<dots> \<le> longest (if m < length (py_str v) then length (py_str v) else m) vs"
    by (rule Cons.IH)
  finally show ?case
    by simp
qed

lemma longest_covers: "v \<in> set vs \<Longrightarrow> length (py_str v) \<le> longest m vs"
proof (induction vs arbitrary: m)
  case Nil
  then show ?case by simp
next
  case (Cons u vs)
  show ?case
  proof (cases "v = u")
    case True
    have "length (py_str u) \<le> (if m < length (py_str u) then length (py_str u) else m)"
      by simp
    also have "\<dots> \<le> longest (if m < length (py_str u) then length (py_str u) else m) vs"
      by (rule longest_ge)
    finally show ?thesis
      using True by simp
  next
    case False
    with Cons.prems have "v \<in> set vs"
      by simp
    then show ?thesis
      by (simp add: Cons.IH)
  qed
qed

lemma column_width_touch [simp]: "column_width (touch rc ws) = column_width ws"
  by (simp add: touch_def split: option.splits)

lemma seen_touch [simp]: "seen (touch rc ws) = seen ws"
  by (rule ext) (simp add: seen_def value_at_touch)

lemma value_at_touches:
  "value_at (fold (\<lambda>r. touch (r, c)) rs ws) (r', c') =
     (if value_at ws (r', c') = None \<and> r' \<in> set rs \<and> c' = c then Some PNone
      else value_at ws (r', c'))"
proof (induction rs arbitrary: ws)
  case Nil
  then show ?case by simp
next
  case (Cons r rs)
  show ?case
    by (auto simp: Cons.IH value_at_touch)
qed

lemma column_cells_seen: "column_cells mr c ws = map (\<lambda>r. seen ws (r, c)) [1..<mr + 1]"
  by (simp add: column_cells_def seen_def value_at_def)

lemma value_at_fit_column:
  "value_at (fit_column mr c ws) (r', c') =
     (if value_at ws (r', c') = None \<and> 1 \<le> r' \<and> r' \<le> mr \<and> c' = c then Some PNone
      else value_at ws (r', c'))"
proof -
  have "value_at (fit_column mr c ws) (r', c') =
          value_at (fold (\<lambda>r. touch (r, c)) [1..<mr + 1] ws) (r', c')"
    by (simp add: fit_column_def Let_def value_at_def)
  then show ?thesis
    by (auto simp: value_at_touches)
qed

lemma seen_fit_column [simp]: "seen (fit_column mr c ws) = seen ws"
proof
  fix k
  show "seen (fit_column mr c ws) k = seen ws k"
    by (cases k) (auto simp: seen_def value_at_fit_column)
qed

lemma column_width_fit_column:
  "column_width (fit_column mr c ws) = put c (longest 0 (column_cells mr c ws) + 2) (column_width ws)"
  by (simp add: fit_column_def Let_def fold_keeps [where g = column_width])

lemma seen_fit_columns [simp]: "seen (fold (fit_column mr) cs ws) = seen ws"
  by (rule fold_keeps) simp

lemma value_at_fit_columns:
  "value_at (fold (fit_column mr) cs ws) (r', c') =
     (if value_at ws (r', c') = None \<and> 1 \<le> r' \<and> r' \<le> mr \<and> c' \<in> set cs then Some PNone
      else value_at ws (r', c'))"
proof (induction cs arbitrary: ws)
  case Nil
  then show ?case by simp
next
  case (Cons c cs)
  show ?case
    by (auto simp: Cons.IH value_at_fit_column)
qed

lemma width_other_columns:
  "c \<notin> set cs \<Longrightarrow>
   map_of (column_width (fold (fit_column mr) cs ws)) c = map_of (column_width ws) c"
  by (induction cs arbitrary: ws) (auto simp: column_width_fit_column map_of_put)

lemma width_fit_columns:
  "c \<in> set cs \<Longrightarrow>
   map_of (column_width (fold (fit_column mr) cs ws)) c =
     Some (longest 0 (column_cells mr c ws) + 2)"
proof (induction cs arbitrary: ws)
  case Nil
  then show ?case by simp
next
  case (Cons c' cs)
  show ?case
  proof (cases "c \<in> set cs")
    case True
    then have "map_of (column_width (fold (fit_column mr) cs (fit_column mr c' ws))) c =
                 Some (longest 0 (column_cells mr c (fit_column mr c' ws)) + 2)"
      by (rule Cons.IH)
    then show ?thesis
      by (simp add: column_cells_seen)
  next
    case False
    with Cons.prems have "c = c'"
      by simp
    with False show ?thesis
      by (simp add: width_other_columns column_width_fit_column map_of_put)
  qed
qed

lemma adjust_widths_fits:
  assumes ok: "within R C ws"
    and cell: "value_at (adjust_widths ws) (r, c) = Some v"
  shows "\<exists>w. map_of (column_width (adjust_widths ws)) c = Some w \<and> length (py_str v) \<le> w"
proof -
  let ?mr = "max_row_of ws" and ?mc = "max_column ws"
  have in_range: "1 \<le> r \<and> r \<le> ?mr \<and> 1 \<le> c \<and> c \<le> ?mc"
  proof (cases "value_at ws (r, c)")
    case None
    with cell show ?thesis
      by (auto simp: adjust_widths_def value_at_fit_columns split: if_splits)
  next
    case (Some u)
    then have "value_at ws (r, c) \<noteq> None"
      by simp
    with ok key_le_max [of ws r c] show ?thesis
      by (auto simp: within_iff)
  qed
  have "seen (adjust_widths ws) (r, c) = v"
    using cell by (simp add: seen_def)
  then have v: "seen ws (r, c) = v"
    by (simp add: adjust_widths_def)
  have "r \<in> set [1..<?mr + 1]"
    using in_range by auto
  then have "seen ws (r, c) \<in> (\<lambda>r. seen ws (r, c)) ` set [1..<?mr + 1]"
    by (rule imageI)
  then have "v \<in> set (column_cells ?mr c ws)"
    by (simp only: column_cells_seen set_map v)
  then have "length (py_str v) \<le> longest 0 (column_cells ?mr c ws)"
    by (rule longest_covers)
  moreover have "map_of (column_width (adjust_widths ws)) c =
                   Some (longest 0 (column_cells ?mr c ws) + 2)"
    unfolding adjust_widths_def using in_range by (intro width_fit_columns) auto
  ultimately show ?thesis
    by simp
qed

lemma within_adjust_widths: "within R C ws \<Longrightarrow> within R C (adjust_widths ws)"
  using max_row_of_le [of R C ws] max_column_le [of R C ws]
  by (auto simp: within_iff adjust_widths_def value_at_fit_columns split: if_splits)

lemma value_at_adjust_widths_Some:
  "value_at ws k = Some v \<Longrightarrow> value_at (adjust_widths ws) k = Some v"
  by (cases k) (simp add: adjust_widths_def value_at_fit_columns)

subsection \<open>The styling step\<close>

lemma touch_fields [simp]:
  "title (touch rc ws) = title ws" "charts (touch rc ws) = charts ws"
  by (simp_all add: touch_def split: option.splits)

lemma set_value_fields [simp]:
  "title (set_value rc v ws) = title ws" "charts (set_value rc v ws) = charts ws"
  "column_width (set_value rc v ws) = column_width ws"
  by (simp_all add: set_value_def)

lemma set_font_fields [simp]:
  "title (set_font rc f ws) = title ws" "charts (set_font rc f ws) = charts ws"
  "column_width (set_font rc f ws) = column_width ws"
  "value_at (set_font rc f ws) = value_at (touch rc ws)"
  by (simp_all add: set_font_def value_at_def fun_eq_iff)

lemma box_fields [simp]:
  "title (box rc ws) = title ws" "charts (box rc ws) = charts ws"
  "column_width (box rc ws) = column_width ws"
  "value_at (box rc ws) = value_at (touch rc ws)"
  by (simp_all add: box_def value_at_def fun_eq_iff)

lemma within_cong: "value_at ws = value_at ws' \<Longrightarrow> within R C ws = within R C ws'"
  by (simp add: within_iff)

lemma within_set_font [simp]:
  "within R C (set_font (r, c) f ws) \<longleftrightarrow>
     within R C ws \<and> 1 \<le> r \<and> r \<le> R \<and> 1 \<le> c \<and> c \<le> C"
  using within_cong [of "set_font (r, c) f ws" "touch (r, c) ws" R C] by simp

lemma within_box [simp]:
  "within R C (box (r, c) ws) \<longleftrightarrow>
     within R C ws \<and> 1 \<le> r \<and> r \<le> R \<and> 1 \<le> c \<and> c \<le> C"
  using within_cong [of "box (r, c) ws" "touch (r, c) ws" R C] by simp

lemma value_at_touch_Some: "value_at ws k = Some v \<Longrightarrow> value_at (touch rc ws) k = Some v"
  by (auto simp: value_at_touch)

lemmas fold_keeps_title = fold_keeps [where g = title]

lemmas fold_keeps_charts = fold_keeps [where g = charts]

lemmas fold_keeps_width = fold_keeps [where g = column_width]

lemma fit_column_fields [simp]:
  "title (fit_column mr c ws) = title ws" "charts (fit_column mr c ws) = charts ws"
  by (simp_all add: fit_column_def Let_def fold_keeps_title fold_keeps_charts)

lemma adjust_widths_fields [simp]:
  "title (adjust_widths ws) = title ws" "charts (adjust_widths ws) = charts ws"
  by (simp_all add: adjust_widths_def fold_keeps_title fold_keeps_charts)

lemma style_dashboard_fields [simp]:
  "title (style_dashboard s n ws) = title ws" "charts (style_dashboard s n ws) = charts ws"
  by (simp_all add: style_dashboard_def Let_def fold_keeps_title fold_keeps_charts)

lemma within_box_row:
  assumes "within R C ws" and "1 \<le> row \<and> row \<le> R"
    and "\<forall>col \<in> set cols. 1 \<le> col \<and> col \<le> C"
  shows "within R C (fold (\<lambda>col. box (row, col)) cols ws)"
  using assms(1,3) assms(2) by (induction cols arbitrary: ws) simp_all

lemma within_boxes:
  assumes "within R C ws" and "\<forall>row \<in> set rows. 1 \<le> row \<and> row \<le> R"
    and "\<forall>col \<in> set cols. 1 \<le> col \<and> col \<le> C"
  shows "within R C (fold (\<lambda>row d. fold (\<lambda>col. box (row, col)) cols d) rows ws)"
  using assms(1,2)
proof (induction rows arbitrary: ws)
  case Nil
  then show ?case by simp
next
  case (Cons row rows)
  have "within R C (fold (\<lambda>col. box (row, col)) cols ws)"
    using Cons.prems assms(3) by (intro within_box_row) auto
  with Cons show ?case
    by simp
qed

lemma value_at_box_row_Some:
  "value_at ws k = Some v \<Longrightarrow> value_at (fold (\<lambda>col. box (row, col)) cols ws) k = Some v"
  by (induction cols arbitrary: ws) (simp_all add: value_at_touch_Some)

lemma value_at_boxes_Some:
  "value_at ws k = Some v \<Longrightarrow>
   value_at (fold (\<lambda>row d. fold (\<lambda>col. box (row, col)) cols d) rows ws) k = Some v"
  by (induction rows arbitrary: ws) (simp_all add: value_at_box_row_Some)

lemma style_dashboard_within:
  assumes "within R C ws" and "1 \<le> s" and "s + 7 \<le> R" and "1 \<le> C" and "n \<le> C"
  shows "within R C (style_dashboard s n ws)"
proof -
  have "within R C (fold (\<lambda>row d. fold (\<lambda>col. box (row, col)) [1..<n + 1] d) [s + 1..<s + 8]
               (set_font (s, 1) \<lparr>bold = True, font_size = None\<rparr>
                 (set_font (1, 1) \<lparr>bold = True, font_size = Some 14\<rparr> ws)))"
    using assms by (intro within_boxes) auto
  then show ?thesis
    unfolding style_dashboard_def Let_def by (rule within_adjust_widths)
qed

lemma style_dashboard_keeps:
  assumes "value_at ws k = Some v"
  shows "value_at (style_dashboard s n ws) k = Some v"
proof -
  have "value_at (set_font (s, 1) \<lparr>bold = True, font_size = None\<rparr>
          (set_font (1, 1) \<lparr>bold = True, font_size = Some 14\<rparr> ws)) k = Some v"
    using assms by (simp add: value_at_touch_Some)
  then show ?thesis
    unfolding style_dashboard_def Let_def
    by (intro value_at_adjust_widths_Some value_at_boxes_Some)
qed

lemma style_dashboard_fits:
  assumes "within R C ws" and "1 \<le> s" and "s + 7 \<le> R" and "1 \<le> C" and "n \<le> C"
    and "value_at (style_dashboard s n ws) (r, c) = Some v"
  shows "\<exists>w. map_of (column_width (style_dashboard s n ws)) c = Some w \<and> length (py_str v) \<le> w"
proof -
  let ?d3 = "fold (\<lambda>row d. fold (\<lambda>col. box (row, col)) [1..<n + 1] d) [s + 1..<s + 8]
               (set_font (s, 1) \<lparr>bold = True, font_size = None\<rparr>
                 (set_font (1, 1) \<lparr>bold = True, font_size = Some 14\<rparr> ws))"
  have ok: "within R C ?d3"
    using assms(1-5) by (intro within_boxes) auto
  have eq: "style_dashboard s n ws = adjust_widths ?d3"
    by (simp only: style_dashboard_def Let_def)
  from assms(6) have "value_at (adjust_widths ?d3) (r, c) = Some v"
    by (simp only: eq)
  with ok have "\<exists>w. map_of (column_width (adjust_widths ?d3)) c = Some w \<and> length (py_str v) \<le> w"
    by (rule adjust_widths_fits)
  then show ?thesis
    by (simp only: eq)
qed

subsection \<open>The rows of formulas\<close>

lemma str_nat_digits:
  "str_nat 1 = ''1''" "str_nat 2 = ''2''" "str_nat 3 = ''3''" "str_nat 4 = ''4''"
  "str_nat 5 = ''5''" "str_nat 6 = ''6''" "str_nat 7 = ''7''" "str_nat 8 = ''8''"
  "str_nat 9 = ''9''"
  by (simp_all add: str_nat.simps digit_def)

lemma is_formula_Some: "is_formula x \<Longrightarrow> \<exists>s. x = Some (PStr s)"
  by (auto simp: is_formula_def split: option.splits pyval.splits)

lemma academic_row_fields [simp]:
  "title (add_institution_academic_formulas row ws) = title ws"
  "charts (add_institution_academic_formulas row ws) = charts ws"
  by (simp_all add: add_institution_academic_formulas_def Let_def)

lemma research_row_fields [simp]:
  "title (add_institution_research_formulas row ws) = title ws"
  "charts (add_institution_research_formulas row ws) = charts ws"
  by (simp_all add: add_institution_research_formulas_def Let_def)

lemma within_academic_row [simp]:
  "within R C (add_institution_academic_formulas row ws) \<longleftrightarrow>
     within R C ws \<and> 1 \<le> row \<and> row \<le> R \<and> 5 \<le> C"
  by (auto simp: add_institution_academic_formulas_def Let_def)

lemma within_research_row [simp]:
  "within R C (add_institution_research_formulas row ws) \<longleftrightarrow>
     within R C ws \<and> 1 \<le> row \<and> row \<le> R \<and> 4 \<le> C"
  by (auto simp: add_institution_research_formulas_def Let_def)

lemma academic_row_elsewhere:
  "r \<noteq> row \<or> c < 2 \<or> 5 < c \<Longrightarrow>
   value_at (add_institution_academic_formulas row ws) (r, c) = value_at ws (r, c)"
  by (auto simp: add_institution_academic_formulas_def Let_def value_at_set_value)

lemma research_row_elsewhere:
  "r \<noteq> row \<or> c < 2 \<or> 4 < c \<Longrightarrow>
   value_at (add_institution_research_formulas row ws) (r, c) = value_at ws (r, c)"
  by (auto simp: add_institution_research_formulas_def Let_def value_at_set_value)

lemma academic_row_formulas:
  assumes "2 \<le> c" and "c \<le> 5"
  shows "is_formula (value_at (add_institution_academic_formulas row ws) (row, c))"
proof -
  from assms have "c = 2 \<or> c = 3 \<or> c = 4 \<or> c = 5"
    by arith
  then show ?thesis
    by (auto simp: add_institution_academic_formulas_def Let_def value_at_set_value
        is_formula_def total_faculty_formula_def)
qed

lemma research_row_formulas:
  assumes "2 \<le> c" and "c \<le> 4"
  shows "is_formula (value_at (add_institution_research_formulas row ws) (row, c))"
proof -
  from assms have "c = 2 \<or> c = 3 \<or> c = 4"
    by arith
  then show ?thesis
    by (auto simp: add_institution_research_formulas_def Let_def value_at_set_value
        is_formula_def total_faculty_formula_def)
qed

subsection \<open>The dashboards before and after styling\<close>

lemma dv_update_fields [simp]:
  "value_at (ws\<lparr>data_validations := x\<rparr>) = value_at ws"
  "within R C (ws\<lparr>data_validations := x\<rparr>) = within R C ws"
  by (simp_all add: value_at_def within_def fun_eq_iff)

lemma chart_update_fields [simp]:
  "value_at (ws\<lparr>charts := x\<rparr>) = value_at ws"
  "within R C (ws\<lparr>charts := x\<rparr>) = within R C ws"
  by (simp_all add: value_at_def within_def fun_eq_iff)

lemma charts_new_sheet [simp]: "charts (new_sheet t) = []" "title (new_sheet t) = t"
  by (simp_all add: new_sheet_def)

lemma dashboard_frame_fields:
  "title (dashboard_frame t h hs insts) = t" "charts (dashboard_frame t h hs insts) = []"
  by (simp_all add: dashboard_frame_def Let_def range5 fold_keeps_title fold_keeps_charts
      cell_write_def)

lemma add_formulas_fields:
  "title (add_academic_formulas s ws) = title ws" "charts (add_academic_formulas s ws) = charts ws"
  "title (add_research_formulas s ws) = title ws" "charts (add_research_formulas s ws) = charts ws"
  by (simp_all add: add_academic_formulas_def add_research_formulas_def add_formulas_def Let_def
      range5)

lemma length_headers: "length academic_headers = 5" "length research_headers = 4"
  by (simp_all add: academic_headers_def research_headers_def)

lemma academic_dashboard_eq:
  "academic_dashboard insts = create_academic_chart 12 (style_dashboard 12 5 (academic_plain insts))"
  by (simp only: academic_dashboard_def academic_plain_def Let_def length_headers)

lemma research_dashboard_eq:
  "research_dashboard insts = create_research_chart 12 (style_dashboard 12 4 (research_plain insts))"
  by (simp only: research_dashboard_def research_plain_def Let_def length_headers)

lemmas plain_defs =
  academic_plain_def research_plain_def add_academic_formulas_def add_research_formulas_def
  add_formulas_def dashboard_frame_def academic_headers_def research_headers_def Let_def range5

lemma within_academic_plain: "within 19 5 (academic_plain insts)"
  by (simp add: plain_defs)

lemma within_research_plain: "within 19 4 (research_plain insts)"
  by (simp add: plain_defs)

lemma ranges:
  "[1..<6] = [1, 2, 3, 4, 5]" "[1..<5] = [1, 2, 3, 4]" "[14..<20] = [14, 15, 16, 17, 18, 19]"
  "[3..<6] = [3, 4, 5]" "[Suc 0..<6] = [1, 2, 3, 4, 5]" "[Suc 0..<5] = [1, 2, 3, 4]"
  by (simp_all add: upt_rec)

lemmas cell_simps =
  value_at_set_value value_at_touch value_at_new_sheet academic_row_elsewhere
  research_row_elsewhere str_nat_digits

lemma academic_plain_header:
  "map (\<lambda>c. value_at (academic_plain insts) (13, c)) [1..<6] =
     map (\<lambda>h. Some (PStr h)) academic_headers"
  by (simp add: plain_defs ranges cell_simps)

lemma research_plain_header:
  "map (\<lambda>c. value_at (research_plain insts) (13, c)) [1..<5] =
     map (\<lambda>h. Some (PStr h)) research_headers"
  by (simp add: plain_defs ranges cell_simps)

lemma academic_plain_refs:
  "map (\<lambda>r. value_at (academic_plain insts) (r, 1)) [14..<20] =
     map (\<lambda>s. Some (PStr s)) selector_refs"
  by (simp add: plain_defs ranges cell_simps selector_refs_def)

lemma research_plain_refs:
  "map (\<lambda>r. value_at (research_plain insts) (r, 1)) [14..<20] =
     map (\<lambda>s. Some (PStr s)) selector_refs"
  by (simp add: plain_defs ranges cell_simps selector_refs_def)

lemma is_formula_str [simp]: "is_formula (Some (PStr (CHR ''='' # s)))"
  by (simp add: is_formula_def)

lemma academic_plain_formulas:
  "list_all (\<lambda>r. list_all (\<lambda>c. is_formula (value_at (academic_plain insts) (r, c))) [1..<6])
     [14..<20]"
  by (simp add: plain_defs ranges cell_simps academic_row_formulas)

lemma research_plain_formulas:
  "list_all (\<lambda>r. list_all (\<lambda>c. is_formula (value_at (research_plain insts) (r, c))) [1..<5])
     [14..<20]"
  by (simp add: plain_defs ranges cell_simps research_row_formulas)

lemma academic_keeps:
  "value_at (academic_plain insts) k = Some v \<Longrightarrow> value_at (academic_dashboard insts) k = Some v"
  by (simp add: academic_dashboard_eq create_academic_chart_def Let_def style_dashboard_keeps)

lemma research_keeps:
  "value_at (research_plain insts) k = Some v \<Longrightarrow> value_at (research_dashboard insts) k = Some v"
  by (simp add: research_dashboard_eq create_research_chart_def Let_def style_dashboard_keeps)

lemma within_academic_dashboard: "within 19 5 (academic_dashboard insts)"
  using style_dashboard_within [OF within_academic_plain, of 12 5 insts]
  by (simp add: academic_dashboard_eq create_academic_chart_def Let_def)

lemma within_research_dashboard: "within 19 4 (research_dashboard insts)"
  using style_dashboard_within [OF within_research_plain, of 12 4 insts]
  by (simp add: research_dashboard_eq create_research_chart_def Let_def)

lemma map_kept:
  assumes "\<And>x v. f x = Some v \<Longrightarrow> g x = Some v"
  shows "map f xs = map Some ys \<Longrightarrow> map g xs = map Some ys"
proof (induction xs arbitrary: ys)
  case Nil
  then show ?case by simp
next
  case (Cons x xs)
  then show ?case
    by (cases ys) (auto simp: assms)
qed

lemma metrics_table_kept:
  assumes keeps: "\<And>k v. value_at a k = Some v \<Longrightarrow> value_at b k = Some v"
    and header: "map (\<lambda>c. value_at a (13, c)) [1..<length hs + 1] = map (\<lambda>h. Some (PStr h)) hs"
    and refs: "map (\<lambda>r. value_at a (r, 1)) [14..<20] = map (\<lambda>s. Some (PStr s)) selector_refs"
    and formulas: "list_all (\<lambda>r. list_all (\<lambda>c. is_formula (value_at a (r, c))) [1..<length hs + 1])
                     [14..<20]"
    and box: "within 19 (length hs) b"
  shows "metrics_table b hs"
proof -
  have "map (\<lambda>c. value_at a (13, c)) [1..<length hs + 1] = map Some (map PStr hs)"
    using header by simp
  then have "map (\<lambda>c. value_at b (13, c)) [1..<length hs + 1] = map Some (map PStr hs)"
    by (rule map_kept [rotated]) (rule keeps)
  then have h: "map (\<lambda>c. value_at b (13, c)) [1..<length hs + 1] = map (\<lambda>h. Some (PStr h)) hs"
    by simp
  have "map (\<lambda>r. value_at a (r, 1)) [14..<20] = map Some (map PStr selector_refs)"
    using refs by simp
  then have "map (\<lambda>r. value_at b (r, 1)) [14..<20] = map Some (map PStr selector_refs)"
    by (rule map_kept [rotated]) (rule keeps)
  then have r: "map (\<lambda>r. value_at b (r, 1)) [14..<20] = map (\<lambda>s. Some (PStr s)) selector_refs"
    by simp
  have "is_formula (value_at b k)" if "is_formula (value_at a k)" for k
    using that is_formula_Some [OF that] keeps [of k] by auto
  with formulas have f: "list_all (\<lambda>r. list_all (\<lambda>c. is_formula (value_at b (r, c))) [1..<length hs + 1])
                     [14..<20]"
    by (simp add: list_all_iff)
  have "value_at b (19, 1) \<noteq> None"
    using r by (simp add: ranges selector_refs_def)
  then have "19 \<le> max_row_of b"
    by (rule key_le_max)
  with max_row_of_le [OF box] have "max_row_of b = 19"
    by simp
  with h r f box show ?thesis
    by (simp add: metrics_table_def)
qed

lemma academic_plain_table:
  "map (\<lambda>c. value_at (academic_plain insts) (13, c)) [1..<length academic_headers + 1] =
     map (\<lambda>h. Some (PStr h)) academic_headers"
  "list_all (\<lambda>r. list_all (\<lambda>c. is_formula (value_at (academic_plain insts) (r, c)))
     [1..<length academic_headers + 1]) [14..<20]"
  "within 19 (length academic_headers) (academic_dashboard insts)"
  using academic_plain_header [of insts] academic_plain_formulas [of insts]
    within_academic_dashboard [of insts]
  by (simp_all add: length_headers)

lemma research_plain_table:
  "map (\<lambda>c. value_at (research_plain insts) (13, c)) [1..<length research_headers + 1] =
     map (\<lambda>h. Some (PStr h)) research_headers"
  "list_all (\<lambda>r. list_all (\<lambda>c. is_formula (value_at (research_plain insts) (r, c)))
     [1..<length research_headers + 1]) [14..<20]"
  "within 19 (length research_headers) (research_dashboard insts)"
  using research_plain_header [of insts] research_plain_formulas [of insts]
    within_research_dashboard [of insts]
  by (simp_all add: length_headers)

text \<open>
  Claim C5. Whatever the institution list, and an empty one too, each dashboard has the
  metrics table the predicate \<open>metrics_table\<close> describes: one header row, row 13, and
  exactly six data rows, rows 14 to 19, the first for the primary institution and five
  for the comparison institutions, after which the sheet ends.
\<close>

theorem metrics_tables_have_six_rows:
  "metrics_table (academic_dashboard insts) academic_headers \<and>
   metrics_table (research_dashboard insts) research_headers"
proof
  show "metrics_table (academic_dashboard insts) academic_headers"
    using academic_keeps academic_plain_table(1) academic_plain_refs academic_plain_table(2,3)
    by (rule metrics_table_kept)
  show "metrics_table (research_dashboard insts) research_headers"
    using research_keeps research_plain_table(1) research_plain_refs research_plain_table(2,3)
    by (rule metrics_table_kept)
qed

subsection \<open>Column widths\<close>

lemma academic_dashboard_widths:
  assumes "value_at (academic_dashboard insts) (r, c) = Some v"
  shows "\<exists>w. map_of (column_width (academic_dashboard insts)) c = Some w \<and> length (py_str v) \<le> w"
proof -
  let ?styled = "style_dashboard 12 5 (academic_plain insts)"
  have v: "value_at ?styled (r, c) = Some v"
    using assms by (simp add: academic_dashboard_eq create_academic_chart_def Let_def)
  have "\<exists>w. map_of (column_width ?styled) c = Some w \<and> length (py_str v) \<le> w"
    by (rule style_dashboard_fits [OF within_academic_plain _ _ _ _ v]) simp_all
  then show ?thesis
    by (simp add: academic_dashboard_eq create_academic_chart_def Let_def)
qed

lemma research_dashboard_widths:
  assumes "value_at (research_dashboard insts) (r, c) = Some v"
  shows "\<exists>w. map_of (column_width (research_dashboard insts)) c = Some w \<and> length (py_str v) \<le> w"
proof -
  let ?styled = "style_dashboard 12 4 (research_plain insts)"
  have v: "value_at ?styled (r, c) = Some v"
    using assms by (simp add: research_dashboard_eq create_research_chart_def Let_def)
  have "\<exists>w. map_of (column_width ?styled) c = Some w \<and> length (py_str v) \<le> w"
    by (rule style_dashboard_fits [OF within_research_plain _ _ _ _ v]) simp_all
  then show ?thesis
    by (simp add: research_dashboard_eq create_research_chart_def Let_def)
qed

text \<open>
  Claim C9. In each dashboard sheet as generated, every cell lies in a column that was
  given a width, and that width is at least the length of the text of the cell's value, a
  formula counting by its text. The styling step sets it to the longest such length in
  the column plus 2.
\<close>

theorem column_widths_cover_cells:
  assumes "ws = academic_dashboard insts \<or> ws = research_dashboard insts"
    and "value_at ws (r, c) = Some v"
  shows "\<exists>w. map_of (column_width ws) c = Some w \<and> length (py_str v) \<le> w"
  using assms academic_dashboard_widths research_dashboard_widths by blast

lemma academic_total_faculty_cell:
  "value_at (academic_dashboard insts) (14, 2) = Some (PStr (total_faculty_formula 14))"
  by (rule academic_keeps)
     (simp add: plain_defs cell_simps add_institution_academic_formulas_def)

theorem column_widths_cover_cells_witness:
  "value_at (academic_dashboard []) (14, 2) = Some (PStr (total_faculty_formula 14)) \<and>
   length (total_faculty_formula 14) = 157 \<and>
   (\<exists>w. map_of (column_width (academic_dashboard [])) 2 = Some w \<and> 157 \<le> w)"
proof -
  have len: "length (total_faculty_formula 14) = 157"
    by (simp add: total_faculty_formula_def str_nat.simps digit_def)
  from column_widths_cover_cells [OF disjI1 [OF refl] academic_total_faculty_cell, of "[]"]
  show ?thesis
    by (simp add: academic_total_faculty_cell len)
qed

subsection \<open>Charts\<close>

lemma academic_charts:
  "charts (academic_dashboard insts) =
     [(''G2'',
       \<lparr>chart_title = ''Faculty to Degree Ratios by Institution'', chart_style = 10,
        series = [\<lparr>min_col = 3, min_row = 13, max_row = 19\<rparr>,
                  \<lparr>min_col = 4, min_row = 13, max_row = 19\<rparr>,
                  \<lparr>min_col = 5, min_row = 13, max_row = 19\<rparr>],
        categories = Some \<lparr>min_col = 1, min_row = 14, max_row = 19\<rparr>,
        chart_height = 15, chart_width = 25\<rparr>)]"
  by (simp add: academic_dashboard_eq create_academic_chart_def Let_def ranges academic_plain_def
      add_formulas_fields dashboard_frame_fields)

lemma research_charts:
  "charts (research_dashboard insts) =
     [(''G2'',
       \<lparr>chart_title = ''Research Dollars per Faculty by Institution'', chart_style = 10,
        series = [\<lparr>min_col = 4, min_row = 13, max_row = 19\<rparr>],
        categories = Some \<lparr>min_col = 1, min_row = 14, max_row = 19\<rparr>,
        chart_height = 15, chart_width = 25\<rparr>)]"
  by (simp add: research_dashboard_eq create_research_chart_def Let_def research_plain_def
      add_formulas_fields dashboard_frame_fields)

text \<open>
  Claim C6 says that the chart of a dashboard plots every metric column of its table,
  four on the academic dashboard and three on the research dashboard. The academic chart
  takes its series from columns 3 to 5 only, the three ratios, and the research chart from
  column 4 only: Total Faculty is plotted on neither, Total Research Expenditures is not
  plotted.
\<close>

theorem charts_plot_all_metrics_counterexample:
  "plotted_columns (academic_dashboard []) = [3, 4, 5] \<and>
   plotted_columns (academic_dashboard []) \<noteq> [2, 3, 4, 5] \<and>
   plotted_columns (research_dashboard []) = [4] \<and>
   plotted_columns (research_dashboard []) \<noteq> [2, 3, 4]"
  by (simp add: plotted_columns_def academic_charts research_charts)

text \<open>
  Claim C6, amended. Each dashboard has one bar chart, anchored at \<^verbatim>\<open>G2\<close>, with the
  institution references of column 1, rows 14 to 19, as categories. The academic chart,
  titled for the faculty to degree ratios, plots the three ratio columns 3 to 5; the
  research chart, titled for the research dollars per faculty, plots column 4 alone.
  Each series runs over rows 13 to 19 and takes its name from the header in row 13.
\<close>

theorem charts_plot_ratio_columns:
  "charts (academic_dashboard insts) =
     [(''G2'',
       \<lparr>chart_title = ''Faculty to Degree Ratios by Institution'', chart_style = 10,
        series = [\<lparr>min_col = 3, min_row = 13, max_row = 19\<rparr>,
                  \<lparr>min_col = 4, min_row = 13, max_row = 19\<rparr>,
                  \<lparr>min_col = 5, min_row = 13, max_row = 19\<rparr>],
        categories = Some \<lparr>min_col = 1, min_row = 14, max_row = 19\<rparr>,
        chart_height = 15, chart_width = 25\<rparr>)] \<and>
   charts (research_dashboard insts) =
     [(''G2'',
       \<lparr>chart_title = ''Research Dollars per Faculty by Institution'', chart_style = 10,
        series = [\<lparr>min_col = 4, min_row = 13, max_row = 19\<rparr>],
        categories = Some \<lparr>min_col = 1, min_row = 14, max_row = 19\<rparr>,
        chart_height = 15, chart_width = 25\<rparr>)] \<and>
   plotted_columns (academic_dashboard insts) = [3, 4, 5] \<and>
   plotted_columns (research_dashboard insts) = [4]"
  by (simp add: plotted_columns_def academic_charts research_charts)

subsection \<open>The sheets of the workbook\<close>

lemma title_dashboards:
  "title (academic_dashboard insts) = ''Academic Dashboard''"
  "title (research_dashboard insts) = ''Research Dashboard''"
  by (simp_all add: academic_dashboard_eq research_dashboard_eq create_academic_chart_def
      create_research_chart_def Let_def academic_plain_def research_plain_def add_formulas_fields
      dashboard_frame_fields)

lemma title_lookups_sheet: "title (lookups_sheet insts) = ''Lookups''"
  by (simp add: lookups_sheet_def title_write_column)

lemma create_lookups_sheet_appends:
  "create_lookups_sheet wb df = Inr (wb', insts) \<Longrightarrow> wb' = wb @ [lookups_sheet insts]"
  by (auto simp: create_lookups_sheet_def create_sheet_def split: sum.splits)

lemma workbook_titles:
  assumes "create_dashboard_workbook faculty_df degrees_df research_df = Inr wb"
  shows "map title wb = sheet_titles"
proof -
  from assms obtain research_df' wb2 insts where
    look: "create_lookups_sheet (create_data_sheets Workbook faculty_df degrees_df research_df')
             faculty_df = Inr (wb2, insts)"
    and wb: "wb = create_research_dashboard (create_academic_dashboard wb2 insts) insts"
    by (auto simp: create_dashboard_workbook_def Let_def split: sum.splits prod.splits)
  from look
  have "wb2 = create_data_sheets Workbook faculty_df degrees_df research_df' @ [lookups_sheet insts]"
    by (rule create_lookups_sheet_appends)
  with wb show ?thesis
    by (simp add: create_research_dashboard_def create_academic_dashboard_def create_sheet_def
        create_data_sheets_def Let_def Workbook_def title_data_sheet title_lookups_sheet
        title_dashboards sheet_titles_def)
qed

lemma example_lookups:
  "create_lookups_sheet wb faculty_example =
     Inr (wb @ [lookups_sheet [PStr ''Alpha'', PStr ''Beta'']], [PStr ''Alpha'', PStr ''Beta''])"
  by (simp add: create_lookups_sheet_def getitem_def faculty_example_def unique_def py_sorted_def
      create_sheet_def)

lemma example_workbook_runs:
  "example_workbook =
     Inr (create_research_dashboard
           (create_academic_dashboard
             (create_data_sheets Workbook faculty_example degrees_example research_totalled
                @ [lookups_sheet [PStr ''Alpha'', PStr ''Beta'']])
             [PStr ''Alpha'', PStr ''Beta''])
           [PStr ''Alpha'', PStr ''Beta''])"
  by (simp add: example_workbook_def create_dashboard_workbook_def add_total_research_numeric
      example_lookups Let_def)

text \<open>
  Claim C2 says that the generated workbook has exactly the six sheets the source creates.
  A workbook made by \<^verbatim>\<open>openpyxl.Workbook()\<close> starts with a sheet titled \<^verbatim>\<open>Sheet\<close>, which
  the source never removes: the workbook generated from the example tables has seven
  sheets.
\<close>

theorem workbook_sheet_count_counterexample:
  "map_sum id (map title) example_workbook = Inr sheet_titles \<and>
   map_sum id length example_workbook = Inr 7 \<and>
   map_sum id length example_workbook \<noteq> Inr 6"
proof -
  from example_workbook_runs obtain wb where run: "example_workbook = Inr wb"
    by blast
  then have "map title wb = sheet_titles"
    unfolding example_workbook_def by (rule workbook_titles)
  moreover from this have "length wb = 7"
    using length_map [of title wb] by (simp add: sheet_titles_def)
  ultimately show ?thesis
    by (simp add: run)
qed

text \<open>
  Claim C2, amended. Whenever the generator succeeds, the workbook has exactly seven
  sheets: the initial sheet titled \<^verbatim>\<open>Sheet\<close>, then Faculty Data, Degrees Data, Research
  Data, Lookups, Academic Dashboard and Research Dashboard, in this order.
\<close>

theorem workbook_has_seven_sheets:
  assumes "create_dashboard_workbook faculty_df degrees_df research_df = Inr wb"
  shows "map title wb = sheet_titles \<and> length wb = 7"
proof -
  have "map title wb = sheet_titles"
    using assms by (rule workbook_titles)
  moreover from this have "length wb = 7"
    using length_map [of title wb] by (simp add: sheet_titles_def)
  ultimately show ?thesis
    by simp
qed

theorem workbook_has_seven_sheets_witness:
  "\<exists>wb. create_dashboard_workbook faculty_example degrees_example research_numeric = Inr wb \<and>
     map title wb = sheet_titles \<and> length wb = 7"
proof -
  from example_workbook_runs obtain wb where
    run: "create_dashboard_workbook faculty_example degrees_example research_numeric = Inr wb"
    unfolding example_workbook_def by blast
  from workbook_has_seven_sheets [OF run] run show ?thesis
    by blast
qed

end
